theory Spec2Isabelle
  imports Main
begin

section \<open>The user model (backend/users/models.py)\<close>

text \<open>
  The repository is a Django application: \<open>backend/users/models.py\<close> declares the
  \<open>User\<close> model and \<open>backend/users/schema.py\<close> the GraphQL operations
  \<open>register\<close>, \<open>login\<close>, \<open>updateProfile\<close> and \<open>me\<close>.
  The operations are embedded below line by line. The calls they make into Django
  (\<open>create_user\<close>, \<open>authenticate\<close>, \<open>filter(email=...)\<close>, \<open>save\<close>) are embedded
  after Django's implementation of them. A character of the model is a code point
  below 256. The password hasher, the Unicode normalisation of usernames and the
  parts of a token are parameters (record \<open>lib\<close>). Column length limits, which only some
  database backends enforce, are outside the model.

  \<open>schema.py\<close> holds its declarations twice (lines 1-108 and 109-216); the second
  copy repeats the first word for word, so one embedding covers both.
\<close>

text \<open>
  A JSON-compatible value. \<open>JFloat m e\<close> is the finite float \<open>m * 2 ^ e\<close>.
\<close>

datatype json =
  JNull | JBool bool | JNum int | JFloat int int | JStr string | JArr "json list"
  | JObj "(string \<times> json) list"

text \<open>
  A row of the user table. \<open>pk\<close> is the model's \<open>id\<close>; \<open>password\<close> is the column
  that holds the password hash. The first seven fields come from Django's
  \<open>AbstractUser\<close>, the last four are declared in models.py lines 7-14.
\<close>

record User =
  pk :: nat
  username :: string
  email :: string
  password :: string
  first_name :: string
  last_name :: string
  is_active :: bool
  avatar_url :: "string option"
  primary_contact :: "string option"
  secondary_contact :: "string option"
  profile_json :: json

text \<open>The user table: its rows in primary-key order.\<close>

type_synonym store = "User list"

text \<open>
  The exceptions the operations can raise. schema.py raises the plain
  \<open>Exception\<close> with a message; \<open>ValueError\<close> and \<open>IntegrityError\<close> come out of
  \<open>create_user\<close>.
\<close>

datatype error = Exception string | ValueError string | IntegrityError

abbreviation DuplicateEmail :: error where
  "DuplicateEmail \<equiv> Exception ''Email already in use''"

abbreviation InvalidCredentials :: error where
  "InvalidCredentials \<equiv> Exception ''Invalid credentials''"

abbreviation AuthenticationRequired :: error where
  "AuthenticationRequired \<equiv> Exception ''Authentication required''"

text \<open>
  What the code takes from libraries that the repository does not contain: Django's
  password hasher (\<open>make_password\<close>, \<open>check_password raw encoded\<close>), Django's
  \<open>normalize_username\<close> (Unicode NFKC), and from rest_framework_simplejwt the
  header of its JSON Web Tokens, the payload of the refresh and of the access token it
  issues for a user (\<open>RefreshToken.for_user(user)\<close> and its \<open>access_token\<close>), and
  the signature of a signing input.
\<close>

record lib =
  make_password :: "string \<Rightarrow> string"
  check_password :: "string \<Rightarrow> string \<Rightarrow> bool"
  normalize_username :: "string \<Rightarrow> string"
  jwt_header :: string
  refresh_payload :: "User \<Rightarrow> string"
  access_payload :: "User \<Rightarrow> string"
  jwt_sign :: "string \<Rightarrow> string"

text \<open>
  \<open>str(token)\<close>, as rest_framework_simplejwt produces it: the compact serialisation
  of a JSON Web Token, \<open>header.payload.signature\<close>, the signature taken over
  \<open>header.payload\<close>.
\<close>

definition jwt_encode :: "lib \<Rightarrow> string \<Rightarrow> string" where
  "jwt_encode L payload =
     (let signing_input = jwt_header L @ ''.'' @ payload
      in signing_input @ ''.'' @ jwt_sign L signing_input)"

text \<open>
  \<open>str(RefreshToken.for_user(user))\<close> and
  \<open>str(RefreshToken.for_user(user).access_token)\<close>.
\<close>

definition refresh_for_user :: "lib \<Rightarrow> User \<Rightarrow> string" where
  "refresh_for_user L u = jwt_encode L (refresh_payload L u)"

definition access_for_user :: "lib \<Rightarrow> User \<Rightarrow> string" where
  "access_for_user L u = jwt_encode L (access_payload L u)"

section \<open>Python string operations used by the code\<close>

text \<open>\<open>s.split(c)\<close> for a one-character separator: never an empty list.\<close>

fun py_split :: "char \<Rightarrow> string \<Rightarrow> string list" where
  "py_split c [] = [[]]"
| "py_split c (x # xs) =
     (if x = c then [] # py_split c xs
      else (case py_split c xs of
              w # ws \<Rightarrow> (x # w) # ws
            | [] \<Rightarrow> [[x]]))"

text \<open>\<open>a or b\<close> on an optional string: \<open>None\<close> and the empty string are falsy.\<close>

fun py_or :: "string option \<Rightarrow> string \<Rightarrow> string" where
  "py_or None d = d"
| "py_or (Some []) d = d"
| "py_or (Some (x # xs)) d = x # xs"

text \<open>
  \<open>str.isspace\<close>, \<open>str.strip()\<close> and \<open>str.lower()\<close> on code points below 256:
  the whitespace there is U+0009 to U+000D, U+001C to U+0020, U+0085 and U+00A0; the
  upper-case letters are A to Z and U+00C0 to U+00DE without the multiplication sign
  U+00D7, each 32 below its lower-case letter.
\<close>

definition is_space :: "char \<Rightarrow> bool" where
  "is_space c =
     (let n = (of_char c :: nat)
      in (9 \<le> n \<and> n \<le> 13) \<or> (28 \<le> n \<and> n \<le> 32) \<or> n = 133 \<or> n = 160)"

definition py_strip :: "string \<Rightarrow> string" where
  "py_strip s = rev (dropWhile is_space (rev (dropWhile is_space s)))"

definition lower_char :: "char \<Rightarrow> char" where
  "lower_char c =
     (let n = (of_char c :: nat)
      in if (65 \<le> n \<and> n \<le> 90) \<or> (192 \<le> n \<and> n \<le> 222 \<and> n \<noteq> 215)
         then char_of (n + 32) else c)"

definition py_lower :: "string \<Rightarrow> string" where
  "py_lower s = map lower_char s"

section \<open>The Django calls\<close>

text \<open>
  \<open>BaseUserManager.normalize_email\<close>:
  \<^verbatim>\<open>
    email = email or ""
    try:
        email_name, domain_part = email.strip().rsplit("@", 1)
    except ValueError:
        pass
    else:
        email = email_name + "@" + domain_part.lower()
    return email
  \<close>
  \<open>rsplit("@", 1)\<close> cuts at the last \<open>@\<close>; without one the unpacking raises and the
  email is returned as it came.
\<close>

definition normalize_email :: "string \<Rightarrow> string" where
  "normalize_email em =
     (let s = py_strip em in
      if CHR ''@'' \<in> set s
      then rev (tl (dropWhile (\<lambda>c. c \<noteq> CHR ''@'') (rev s))) @ ''@'' @
           py_lower (rev (takeWhile (\<lambda>c. c \<noteq> CHR ''@'') (rev s)))
      else em)"

text \<open>\<open>User.objects.filter(email=em)\<close>: the rows whose email is exactly \<open>em\<close>.\<close>

definition filter_email :: "store \<Rightarrow> string \<Rightarrow> User list" where
  "filter_email rows em = filter (\<lambda>u. email u = em) rows"

text \<open>\<open>.exists()\<close> and \<open>.first()\<close> of a query set.\<close>

definition exists_qs :: "User list \<Rightarrow> bool" where
  "exists_qs qs = (qs \<noteq> [])"

definition first_qs :: "User list \<Rightarrow> User option" where
  "first_qs qs = (case qs of [] \<Rightarrow> None | u # _ \<Rightarrow> Some u)"

text \<open>The key an \<open>AutoField\<close> gets on insert: larger than every key of the table.\<close>

definition new_pk :: "store \<Rightarrow> nat" where
  "new_pk rows = Suc (foldr max (map pk rows) 0)"

text \<open>
  \<open>Model.save()\<close>: an instance whose key is in the table updates that row, any other
  instance is inserted.
\<close>

definition save :: "store \<Rightarrow> User \<Rightarrow> store" where
  "save rows u =
     (if list_ex (\<lambda>r. pk r = pk u) rows
      then map (\<lambda>r. if pk r = pk u then u else r) rows
      else rows @ [u])"

text \<open>
  \<open>UserManager.create_user(username, email, password, first_name, last_name)\<close>:
  \<^verbatim>\<open>
    if not username:
        raise ValueError("The given username must be set")
    email = self.normalize_email(email)
    username = GlobalUserModel.normalize_username(username)
    user = self.model(username=username, email=email, **extra_fields)
    user.password = make_password(password)
    user.save(using=self._db)
    return user
  \<close>
  The insert raises \<open>IntegrityError\<close> when the username is taken: the column is
  declared unique. The remaining columns get the model's defaults (\<open>is_active\<close> true,
  the nullable columns null, \<open>profile_json\<close> the empty object of \<open>default=dict\<close>).
\<close>

definition create_user ::
  "lib \<Rightarrow> store \<Rightarrow> string \<Rightarrow> string \<Rightarrow> string \<Rightarrow> string \<Rightarrow> string \<Rightarrow> (error + User) \<times> store" where
  "create_user L rows un em pw fn ln =
     (if un = [] then (Inl (ValueError ''The given username must be set''), rows)
      else if list_ex (\<lambda>r. username r = normalize_username L un) rows
      then (Inl IntegrityError, rows)
      else
        (let u = \<lparr> pk = new_pk rows, username = normalize_username L un,
                   email = normalize_email em,
                   password = make_password L pw, first_name = fn, last_name = ln,
                   is_active = True, avatar_url = None, primary_contact = None,
                   secondary_contact = None, profile_json = JObj [] \<rparr>
         in (Inr u, rows @ [u])))"

text \<open>
  \<open>authenticate(username=un, password=pw)\<close> with Django's \<open>ModelBackend\<close>: the row
  with that username, if its password verifies and the user is active.
\<close>

definition authenticate :: "lib \<Rightarrow> store \<Rightarrow> string \<Rightarrow> string \<Rightarrow> User option" where
  "authenticate L rows un pw =
     (case find (\<lambda>u. username u = un) rows of
        None \<Rightarrow> None
      | Some u \<Rightarrow> if check_password L pw (password u) \<and> is_active u then Some u else None)"

section \<open>The operations (backend/users/schema.py)\<close>

text \<open>What \<open>register\<close> and \<open>login\<close> return (schema.py lines 43-45 and 68-70).\<close>

record token_payload =
  user :: User
  access_token :: string
  refresh_token :: string

text \<open>
  \<open>Register.mutate\<close>, schema.py lines 48-60. \<open>email.split('@')[0]\<close> is the head of
  \<open>py_split\<close>, which is never the empty list (lemma \<open>py_split_nonempty\<close> below).
\<close>

definition Register_mutate ::
  "lib \<Rightarrow> store \<Rightarrow> string \<Rightarrow> string \<Rightarrow> string option \<Rightarrow> string option \<Rightarrow> string option
     \<Rightarrow> (error + token_payload) \<times> store" where
  "Register_mutate L rows em pw un fn ln =
     (if exists_qs (filter_email rows em) then (Inl DuplicateEmail, rows)
      else
        (case create_user L rows (py_or un (hd (py_split CHR ''@'' em))) em pw
                (py_or fn []) (py_or ln []) of
           (Inl e, rows') \<Rightarrow> (Inl e, rows')
         | (Inr u, rows') \<Rightarrow>
             (Inr \<lparr> user = u, access_token = access_for_user L u,
                    refresh_token = refresh_for_user L u \<rparr>,
              save rows' u)))"

text \<open>\<open>Login.mutate\<close>, schema.py lines 73-92.\<close>

definition Login_mutate :: "lib \<Rightarrow> store \<Rightarrow> string \<Rightarrow> string \<Rightarrow> error + token_payload" where
  "Login_mutate L rows em pw =
     (let found =
        (case authenticate L rows em pw of
           Some u \<Rightarrow> Some u
         | None \<Rightarrow>
             (case first_qs (filter_email rows em) of
                None \<Rightarrow> None
              | Some obj \<Rightarrow> if check_password L pw (password obj) then Some obj else None))
      in case found of
           None \<Rightarrow> Inl InvalidCredentials
         | Some u \<Rightarrow>
             Inr \<lparr> user = u, access_token = access_for_user L u,
                   refresh_token = refresh_for_user L u \<rparr>)"

text \<open>
  \<open>info.context.user\<close>: Django's \<open>AnonymousUser\<close>, or the instance of the
  authenticated user.
\<close>

datatype context_user = AnonymousUser | Authenticated User

fun is_anonymous :: "context_user \<Rightarrow> bool" where
  "is_anonymous AnonymousUser = True"
| "is_anonymous (Authenticated u) = False"

text \<open>
  The arguments \<open>UpdateProfile\<close> declares (schema.py lines 15-18). GraphQL rejects
  a call with any other argument before \<open>mutate\<close> runs, so these are all the keys
  \<open>kwargs\<close> can hold. An argument that was left out is no key of \<open>kwargs\<close>; one
  given as null is a key with the value \<open>None\<close>.
\<close>

datatype arg_name = Arg_primary_contact | Arg_secondary_contact | Arg_avatar_url

text \<open>Each of the three is a field of the model, so \<open>hasattr\<close> is true.\<close>

fun hasattr :: "User \<Rightarrow> arg_name \<Rightarrow> bool" where
  "hasattr u Arg_primary_contact = True"
| "hasattr u Arg_secondary_contact = True"
| "hasattr u Arg_avatar_url = True"

fun setattr :: "User \<Rightarrow> arg_name \<Rightarrow> string \<Rightarrow> User" where
  "setattr u Arg_primary_contact v = u\<lparr>primary_contact := Some v\<rparr>"
| "setattr u Arg_secondary_contact v = u\<lparr>secondary_contact := Some v\<rparr>"
| "setattr u Arg_avatar_url v = u\<lparr>avatar_url := Some v\<rparr>"

text \<open>The attribute of the user that an argument names: \<open>getattr(user, k)\<close>.\<close>

fun arg_value :: "User \<Rightarrow> arg_name \<Rightarrow> string option" where
  "arg_value u Arg_primary_contact = primary_contact u"
| "arg_value u Arg_secondary_contact = secondary_contact u"
| "arg_value u Arg_avatar_url = avatar_url u"

text \<open>One round of the loop of schema.py lines 28-30.\<close>

fun update_step :: "arg_name \<times> string option \<Rightarrow> User \<Rightarrow> User" where
  "update_step (k, None) u = u"
| "update_step (k, Some v) u = (if hasattr u k then setattr u k v else u)"

text \<open>\<open>UpdateProfile.mutate\<close>, schema.py lines 23-32.\<close>

definition UpdateProfile_mutate ::
  "store \<Rightarrow> context_user \<Rightarrow> (arg_name \<times> string option) list \<Rightarrow> (error + User) \<times> store" where
  "UpdateProfile_mutate rows ctx kwargs =
     (case ctx of
        AnonymousUser \<Rightarrow> (Inl AuthenticationRequired, rows)
      | Authenticated u \<Rightarrow>
          (let u' = fold update_step kwargs u in (Inr u', save rows u')))"

text \<open>\<open>Query.resolve_me\<close>, schema.py lines 104-108.\<close>

definition resolve_me :: "context_user \<Rightarrow> User option" where
  "resolve_me ctx = (if is_anonymous ctx then None else (case ctx of Authenticated u \<Rightarrow> Some u | AnonymousUser \<Rightarrow> None))"

text \<open>
  \<open>UserType\<close>, schema.py lines 8-11: the GraphQL type through which every operation
  hands a user to the caller (\<open>user = graphene.Field(UserType)\<close>, \<open>me\<close> likewise).
  \<open>Meta.fields\<close> lists the attributes the type resolves; \<open>getattr\<close> reads an
  attribute of the model by its name.
\<close>

datatype field_value =
  IntValue nat | StrValue string | NullValue | BoolValue bool | JsonValue json

fun nullable :: "string option \<Rightarrow> field_value" where
  "nullable None = NullValue"
| "nullable (Some s) = StrValue s"

definition getattr :: "User \<Rightarrow> string \<Rightarrow> field_value option" where
  "getattr u f =
     (if f = ''id'' then Some (IntValue (pk u))
      else if f = ''username'' then Some (StrValue (username u))
      else if f = ''email'' then Some (StrValue (email u))
      else if f = ''password'' then Some (StrValue (password u))
      else if f = ''first_name'' then Some (StrValue (first_name u))
      else if f = ''last_name'' then Some (StrValue (last_name u))
      else if f = ''is_active'' then Some (BoolValue (is_active u))
      else if f = ''avatar_url'' then Some (nullable (avatar_url u))
      else if f = ''primary_contact'' then Some (nullable (primary_contact u))
      else if f = ''secondary_contact'' then Some (nullable (secondary_contact u))
      else if f = ''profile_json'' then Some (JsonValue (profile_json u))
      else None)"

definition UserType_fields :: "string list" where
  "UserType_fields =
     [''id'', ''username'', ''email'', ''first_name'', ''last_name'', ''avatar_url'',
      ''primary_contact'', ''secondary_contact'', ''profile_json'']"

definition UserType_repr :: "User \<Rightarrow> (string \<times> field_value option) list" where
  "UserType_repr u = map (\<lambda>f. (f, getattr u f)) UserType_fields"

section \<open>Concrete inputs\<close>

text \<open>
  An instance of the library parameters and a few users, on which the operations
  are evaluated below. Its \<open>normalize_username\<close> agrees with NFKC on ASCII text,
  which NFKC leaves as it is, and on the ordinal indicators U+00AA and U+00BA, which
  NFKC turns into the letters a and o.
\<close>

definition demo_nfkc :: "string \<Rightarrow> string" where
  "demo_nfkc s =
     map (\<lambda>c. if c = CHR 0xAA then CHR ''a'' else if c = CHR 0xBA then CHR ''o'' else c) s"

definition demo_lib :: lib where
  "demo_lib =
     \<lparr> make_password = (\<lambda>p. ''hash:'' @ p),
       check_password = (\<lambda>p h. h = ''hash:'' @ p),
       normalize_username = demo_nfkc,
       jwt_header = ''hdr'',
       refresh_payload = (\<lambda>u. ''refresh:'' @ username u),
       access_payload = (\<lambda>u. ''access:'' @ username u),
       jwt_sign = (\<lambda>s. ''sig'') \<rparr>"

definition alice :: User where
  "alice =
     \<lparr> pk = 1, username = ''a'', email = ''a@x.com'', password = ''hash:p'',
       first_name = [], last_name = [], is_active = True, avatar_url = None,
       primary_contact = None, secondary_contact = None, profile_json = JObj [] \<rparr>"

definition bob :: User where
  "bob =
     \<lparr> pk = 2, username = ''b'', email = ''b@y.com'', password = ''hash:q'',
       first_name = ''Bob'', last_name = [], is_active = True, avatar_url = None,
       primary_contact = Some ''+33123456789'', secondary_contact = None,
       profile_json = JObj [] \<rparr>"


definition twin :: User where
  "twin =
     \<lparr> pk = 2, username = ''b'', email = ''a@x.com'', password = ''hash:q'',
       first_name = [], last_name = [], is_active = True, avatar_url = None,
       primary_contact = None, secondary_contact = None, profile_json = JObj [] \<rparr>"

definition carol :: User where
  "carol =
     \<lparr> pk = 2, username = ''carol'', email = ''carol@y.com'', password = ''hash:zz'',
       first_name = [], last_name = ''Lee'', is_active = True, avatar_url = None,
       primary_contact = None, secondary_contact = None, profile_json = JObj [] \<rparr>"

definition spaced :: User where
  "spaced =
     \<lparr> pk = 2, username = '' a'', email = ''a@x.com'', password = ''hash:q'',
       first_name = [], last_name = [], is_active = True, avatar_url = None,
       primary_contact = None, secondary_contact = None, profile_json = JObj [] \<rparr>"

definition ordinal :: User where
  "ordinal =
     \<lparr> pk = 1, username = ''a'', email = CHR 0xAA # ''@x.com'', password = ''hash:p'',
       first_name = [], last_name = [], is_active = True, avatar_url = None,
       primary_contact = None, secondary_contact = None, profile_json = JObj [] \<rparr>"

section \<open>Reading a user back\<close>

text \<open>
  Modelled from the spec: \<open>find_by_id(id) -> User | none\<close> of the user store
  (spec 4.1), the read that follows a \<open>save\<close>. The repository has no function that
  reads a user by id or writes \<open>profile_json\<close>; the encoding of the \<open>JSONField\<close>
  of models.py line 14 into the database column and back is Django's and is not
  modelled: the table holds the JSON value itself.
\<close>

definition find_by_id :: "store \<Rightarrow> nat \<Rightarrow> User option" where
  "find_by_id rows i = find (\<lambda>r. pk r = i) rows"

section \<open>The constraints of the table\<close>

text \<open>
  What the database enforces on the user table: the primary key and the \<open>username\<close>
  column are unique. The \<open>email\<close> column of Django's \<open>AbstractUser\<close> carries no
  such constraint.
\<close>

definition table_ok :: "store \<Rightarrow> bool" where
  "table_ok rows = (distinct (map pk rows) \<and> distinct (map username rows))"

section \<open>Facts about the string and table operations\<close>

lemma py_split_nonempty: "py_split c s \<noteq> []"
  by (induction s) (auto split: list.splits)

lemma hd_py_split: "hd (py_split c s) = takeWhile (\<lambda>x. x \<noteq> c) s"
  by (induction s) (auto split: list.splits simp: py_split_nonempty)

lemma filter_email_empty: "(filter_email rows em = []) = (\<forall>u\<in>set rows. email u \<noteq> em)"
  by (auto simp: filter_email_def filter_empty_conv)

lemma first_qs_filter_email: "first_qs (filter_email rows em) = find (\<lambda>u. email u = em) rows"
  by (induction rows) (auto simp: first_qs_def filter_email_def)

lemma foldr_max_ge: "u \<in> set rows \<Longrightarrow> pk u \<le> foldr max (map pk rows) 0"
  by (induction rows) (auto simp: max_def)

lemma new_pk_fresh: "u \<in> set rows \<Longrightarrow> pk u < new_pk rows"
  using foldr_max_ge [of u rows] by (simp add: new_pk_def)

lemma save_appended: "\<forall>r\<in>set rows. pk r \<noteq> pk u \<Longrightarrow> save (rows @ [u]) u = rows @ [u]"
  by (auto simp: save_def list_ex_iff intro: map_idI)

lemma save_mem: "u \<in> set (save rows u)"
  by (auto simp: save_def list_ex_iff)

lemma create_user_Inr:
  "create_user L rows un em pw fn ln = (Inr u, rows') \<Longrightarrow>
     un \<noteq> [] \<and> \<not> list_ex (\<lambda>r. username r = normalize_username L un) rows \<and>
     rows' = rows @ [u] \<and>
     u = \<lparr> pk = new_pk rows, username = normalize_username L un, email = normalize_email em,
           password = make_password L pw, first_name = fn, last_name = ln,
           is_active = True, avatar_url = None, primary_contact = None,
           secondary_contact = None, profile_json = JObj [] \<rparr>"
  by (auto simp: create_user_def Let_def split: if_splits)

lemma Register_Inr:
  assumes "Register_mutate L rows em pw un fn ln = (Inr r, rows')"
  shows "\<exists>rows1. create_user L rows (py_or un (hd (py_split CHR ''@'' em))) em pw
                   (py_or fn []) (py_or ln []) = (Inr (user r), rows1)
       \<and> rows' = save rows1 (user r) \<and> access_token r = access_for_user L (user r)
       \<and> refresh_token r = refresh_for_user L (user r) \<and> filter_email rows em = []"
proof (cases "create_user L rows (py_or un (hd (py_split CHR ''@'' em))) em pw (py_or fn []) (py_or ln [])")
  case (Pair res rows1)
  then show ?thesis using assms
    by (cases res) (auto simp: Register_mutate_def exists_qs_def split: if_splits)
qed

lemma Login_cases:
  "Login_mutate L rows em pw = Inl InvalidCredentials \<or>
   (\<exists>u. Login_mutate L rows em pw =
      Inr \<lparr> user = u, access_token = access_for_user L u, refresh_token = refresh_for_user L u \<rparr>)"
  by (simp add: Login_mutate_def Let_def split: option.splits)

lemma authenticate_Some:
  "authenticate L rows un pw = Some u \<Longrightarrow>
     u \<in> set rows \<and> username u = un \<and> check_password L pw (password u) \<and> is_active u"
  by (auto simp: authenticate_def find_Some_iff split: option.splits if_splits)

lemma resolve_me_cases:
  "resolve_me AnonymousUser = None \<and> resolve_me (Authenticated u) = Some u"
  by (simp add: resolve_me_def)


lemma find_save: "find (\<lambda>r. pk r = pk u) (save rows u) = Some u"
proof (cases "list_ex (\<lambda>r. pk r = pk u) rows")
  case True
  then have "find (\<lambda>r. pk r = pk u) (map (\<lambda>r. if pk r = pk u then u else r) rows) = Some u"
    by (induction rows) auto
  with True show ?thesis by (simp add: save_def)
next
  case False
  then have "find (\<lambda>r. pk r = pk u) (rows @ [u]) = Some u"
    by (induction rows) auto
  with False show ?thesis by (simp add: save_def)
qed

section \<open>Failing operations\<close>

text \<open>
  C7: \<open>updateProfile\<close> called by an anonymous caller raises "Authentication required"
  and leaves the user table as it was, whatever the table and the arguments.
\<close>

theorem UpdateProfile_anonymous:
  "UpdateProfile_mutate rows AnonymousUser kwargs = (Inl AuthenticationRequired, rows)"
  by (simp add: UpdateProfile_mutate_def)

text \<open>
  C1: when some row of the table already has the submitted email, \<open>register\<close> raises
  "Email already in use" and returns the table unchanged: no row is added.
\<close>

theorem Register_duplicate_email:
  assumes "\<exists>u\<in>set rows. email u = em"
  shows "Register_mutate L rows em pw un fn ln = (Inl DuplicateEmail, rows)"
proof -
  from assms have "filter_email rows em \<noteq> []"
    by (simp add: filter_email_empty)
  then show ?thesis
    by (simp add: Register_mutate_def exists_qs_def)
qed

theorem Register_duplicate_email_witness:
  "Register_mutate demo_lib [alice, bob] ''b@y.com'' ''zz'' None None None =
     (Inl DuplicateEmail, [alice, bob])"
proof -
  have "\<exists>u\<in>set [alice, bob]. email u = ''b@y.com''"
    by (simp add: bob_def)
  then show ?thesis by (rule Register_duplicate_email)
qed

text \<open>
  C2: a \<open>login\<close> that does not succeed raises "Invalid credentials" and nothing else;
  that is its outcome both when no row has the submitted email as username or email,
  and when rows match but none of their passwords verifies.
\<close>

theorem Login_failure_is_InvalidCredentials:
  "((\<forall>r. Login_mutate L rows em pw \<noteq> Inr r) \<longrightarrow>
      Login_mutate L rows em pw = Inl InvalidCredentials)
   \<and> ((\<forall>u\<in>set rows. username u \<noteq> em \<and> email u \<noteq> em)
        \<longrightarrow> Login_mutate L rows em pw = Inl InvalidCredentials)
   \<and> ((\<forall>u\<in>set rows. (username u = em \<or> email u = em) \<longrightarrow> \<not> check_password L pw (password u))
        \<longrightarrow> Login_mutate L rows em pw = Inl InvalidCredentials)"
proof (intro conjI impI)
  assume "\<forall>r. Login_mutate L rows em pw \<noteq> Inr r"
  then show "Login_mutate L rows em pw = Inl InvalidCredentials"
    using Login_cases [of L rows em pw] by auto
next
  assume a: "\<forall>u\<in>set rows. username u \<noteq> em \<and> email u \<noteq> em"
  then have "find (\<lambda>u. username u = em) rows = None" "find (\<lambda>u. email u = em) rows = None"
    by (auto simp: find_None_iff)
  then show "Login_mutate L rows em pw = Inl InvalidCredentials"
    by (simp add: Login_mutate_def authenticate_def first_qs_filter_email)
next
  assume a: "\<forall>u\<in>set rows. (username u = em \<or> email u = em) \<longrightarrow> \<not> check_password L pw (password u)"
  have 1: "authenticate L rows em pw = None"
    using a by (auto simp: authenticate_def find_Some_iff split: option.splits)
  have 2: "\<And>obj. find (\<lambda>u. email u = em) rows = Some obj \<Longrightarrow> \<not> check_password L pw (password obj)"
    using a by (auto simp: find_Some_iff)
  show "Login_mutate L rows em pw = Inl InvalidCredentials"
    using 1 2 by (auto simp: Login_mutate_def first_qs_filter_email split: option.splits)
qed

theorem Login_failure_witness:
  "Login_mutate demo_lib [alice, bob] ''nobody@x.com'' ''p'' = Inl InvalidCredentials
   \<and> Login_mutate demo_lib [alice, bob] ''a@x.com'' ''wrong'' = Inl InvalidCredentials
   \<and> Login_mutate demo_lib [alice, bob] ''b@y.com'' ''p'' = Inl InvalidCredentials"
proof (intro conjI)
  have "\<forall>u\<in>set [alice, bob]. username u \<noteq> ''nobody@x.com'' \<and> email u \<noteq> ''nobody@x.com''"
    by (simp add: alice_def bob_def)
  with Login_failure_is_InvalidCredentials [of demo_lib "[alice, bob]" "''nobody@x.com''" "''p''"]
  show "Login_mutate demo_lib [alice, bob] ''nobody@x.com'' ''p'' = Inl InvalidCredentials"
    by blast
  have "\<forall>u\<in>set [alice, bob]. (username u = ''a@x.com'' \<or> email u = ''a@x.com'')
          \<longrightarrow> \<not> check_password demo_lib ''wrong'' (password u)"
    by (simp add: alice_def bob_def demo_lib_def)
  with Login_failure_is_InvalidCredentials [of demo_lib "[alice, bob]" "''a@x.com''" "''wrong''"]
  show "Login_mutate demo_lib [alice, bob] ''a@x.com'' ''wrong'' = Inl InvalidCredentials"
    by blast
  have e: "Login_mutate demo_lib [alice, bob] ''b@y.com'' ''p'' = Inl InvalidCredentials"
    by code_simp
  then have "\<forall>r. Login_mutate demo_lib [alice, bob] ''b@y.com'' ''p'' \<noteq> Inr r"
    by simp
  with Login_failure_is_InvalidCredentials [of demo_lib "[alice, bob]" "''b@y.com''" "''p''"]
  show "Login_mutate demo_lib [alice, bob] ''b@y.com'' ''p'' = Inl InvalidCredentials"
    by blast
qed

section \<open>What the caller sees of a user\<close>

lemma getattr_password_update:
  "f \<noteq> ''password'' \<Longrightarrow> getattr (u\<lparr>password := h\<rparr>) f = getattr u f"
  by (simp add: getattr_def)

text \<open>
  C8: the representation \<open>UserType\<close> gives of a user is the nine attributes id,
  username, email, first_name, last_name, avatar_url, primary_contact,
  secondary_contact and profile_json, in this order, each with the value of the
  row; \<open>password\<close> is not among them, and two users that differ only in the stored
  password hash have the same representation.
\<close>

theorem UserType_hides_password:
  "UserType_repr u =
     [(''id'', Some (IntValue (pk u))), (''username'', Some (StrValue (username u))),
      (''email'', Some (StrValue (email u))), (''first_name'', Some (StrValue (first_name u))),
      (''last_name'', Some (StrValue (last_name u))),
      (''avatar_url'', Some (nullable (avatar_url u))),
      (''primary_contact'', Some (nullable (primary_contact u))),
      (''secondary_contact'', Some (nullable (secondary_contact u))),
      (''profile_json'', Some (JsonValue (profile_json u)))]
   \<and> ''password'' \<notin> set (map fst (UserType_repr u))
   \<and> UserType_repr (u\<lparr>password := h\<rparr>) = UserType_repr u"
proof (intro conjI)
  show "UserType_repr u =
     [(''id'', Some (IntValue (pk u))), (''username'', Some (StrValue (username u))),
      (''email'', Some (StrValue (email u))), (''first_name'', Some (StrValue (first_name u))),
      (''last_name'', Some (StrValue (last_name u))),
      (''avatar_url'', Some (nullable (avatar_url u))),
      (''primary_contact'', Some (nullable (primary_contact u))),
      (''secondary_contact'', Some (nullable (secondary_contact u))),
      (''profile_json'', Some (JsonValue (profile_json u)))]"
    by (simp add: UserType_repr_def UserType_fields_def getattr_def)
  show "''password'' \<notin> set (map fst (UserType_repr u))"
    by (simp add: UserType_repr_def UserType_fields_def)
  show "UserType_repr (u\<lparr>password := h\<rparr>) = UserType_repr u"
    by (simp add: UserType_repr_def UserType_fields_def getattr_password_update)
qed

section \<open>Registration\<close>

text \<open>
  C10, as the code has it: \<open>register\<close> treats an empty username argument as one left
  out or null. When the username is left out, null or empty and \<open>register\<close> creates a
  user, the username is what Django's \<open>normalize_username\<close> makes of the part of the
  submitted email before its first \<open>@\<close> (the whole email when it has none), so that
  part itself whenever the normalisation leaves it as it is; a first or last name left
  out, null or empty is stored as the empty string. The created user is a row of the
  new table.
\<close>

theorem Register_default_names:
  "Register_mutate L rows em pw (Some []) fn ln = Register_mutate L rows em pw None fn ln
   \<and> (\<forall>r rows'. (un = None \<or> un = Some []) \<and>
          Register_mutate L rows em pw un fn ln = (Inr r, rows') \<longrightarrow>
        username (user r) = normalize_username L (takeWhile (\<lambda>c. c \<noteq> CHR ''@'') em)
        \<and> (normalize_username L (takeWhile (\<lambda>c. c \<noteq> CHR ''@'') em)
              = takeWhile (\<lambda>c. c \<noteq> CHR ''@'') em
            \<longrightarrow> username (user r) = takeWhile (\<lambda>c. c \<noteq> CHR ''@'') em)
        \<and> (fn = None \<or> fn = Some [] \<longrightarrow> first_name (user r) = [])
        \<and> (ln = None \<or> ln = Some [] \<longrightarrow> last_name (user r) = [])
        \<and> user r \<in> set rows')"
proof (intro conjI allI impI)
  show "Register_mutate L rows em pw (Some []) fn ln = Register_mutate L rows em pw None fn ln"
    by (simp add: Register_mutate_def)
next
  fix r rows'
  assume a: "(un = None \<or> un = Some []) \<and> Register_mutate L rows em pw un fn ln = (Inr r, rows')"
  then have reg: "Register_mutate L rows em pw un fn ln = (Inr r, rows')" by simp
  from Register_Inr [OF reg] obtain rows1 where
    c: "create_user L rows (py_or un (hd (py_split CHR ''@'' em))) em pw (py_or fn []) (py_or ln [])
          = (Inr (user r), rows1)"
    and s: "rows' = save rows1 (user r)" by blast
  from create_user_Inr [OF c] have
    u: "username (user r) = normalize_username L (py_or un (hd (py_split CHR ''@'' em)))"
       "first_name (user r) = py_or fn []" "last_name (user r) = py_or ln []"
    by (metis User.select_convs(2), metis User.select_convs(5), metis User.select_convs(6))
  show n: "username (user r) = normalize_username L (takeWhile (\<lambda>c. c \<noteq> CHR ''@'') em)"
    using u(1) a by (auto simp: hd_py_split)
  show "username (user r) = takeWhile (\<lambda>c. c \<noteq> CHR ''@'') em"
    if "normalize_username L (takeWhile (\<lambda>c. c \<noteq> CHR ''@'') em)
          = takeWhile (\<lambda>c. c \<noteq> CHR ''@'') em"
    using n that by simp
  show "first_name (user r) = []" if "fn = None \<or> fn = Some []"
    using u(2) that by auto
  show "last_name (user r) = []" if "ln = None \<or> ln = Some []"
    using u(3) that by auto
  show "user r \<in> set rows'" using s by (simp add: save_mem)
qed

theorem Register_default_names_witness:
  "Register_mutate demo_lib [alice] ''carol@Y.com'' ''zz'' (Some []) None (Some ''Lee'') =
     (Inr \<lparr> user = carol, access_token = ''hdr.access:carol.sig'',
            refresh_token = ''hdr.refresh:carol.sig'' \<rparr>,
      [alice, carol])
   \<and> Register_mutate demo_lib [alice] ''carol@Y.com'' ''zz'' None None (Some ''Lee'') =
     (Inr \<lparr> user = carol, access_token = ''hdr.access:carol.sig'',
            refresh_token = ''hdr.refresh:carol.sig'' \<rparr>,
      [alice, carol])
   \<and> username carol = takeWhile (\<lambda>c. c \<noteq> CHR ''@'') ''carol@Y.com''
   \<and> username carol = ''carol''
   \<and> first_name carol = []
   \<and> carol \<in> set [alice, carol]"
proof -
  have e: "Register_mutate demo_lib [alice] ''carol@Y.com'' ''zz'' (Some []) None (Some ''Lee'') =
     (Inr \<lparr> user = carol, access_token = ''hdr.access:carol.sig'',
            refresh_token = ''hdr.refresh:carol.sig'' \<rparr>,
      [alice, carol])"
    by code_simp
  have n: "normalize_username demo_lib (takeWhile (\<lambda>c. c \<noteq> CHR ''@'') ''carol@Y.com'')
             = takeWhile (\<lambda>c. c \<noteq> CHR ''@'') ''carol@Y.com''"
    by code_simp
  have t: "takeWhile (\<lambda>c. c \<noteq> CHR ''@'') ''carol@Y.com'' = ''carol''" by simp
  note th = Register_default_names [of demo_lib "[alice]" "''carol@Y.com''" "''zz''" None
      "Some ''Lee''" "Some []"]
  from th have same: "Register_mutate demo_lib [alice] ''carol@Y.com'' ''zz'' (Some []) None (Some ''Lee'')
      = Register_mutate demo_lib [alice] ''carol@Y.com'' ''zz'' None None (Some ''Lee'')"
    by (rule conjunct1)
  from th e have
    "username carol = normalize_username demo_lib (takeWhile (\<lambda>c. c \<noteq> CHR ''@'') ''carol@Y.com'')"
    "first_name carol = []" "carol \<in> set [alice, carol]"
    by auto
  with e same n t show ?thesis by simp
qed

text \<open>
  C10 as the spec states it fails: from the empty table, \<open>register\<close> with the email
  whose part before the \<open>@\<close> is the ordinal indicator U+00AA and with no username
  creates a user whose username is the letter a, not that part of the email.
\<close>

theorem Register_default_names_counterexample:
  "Register_mutate demo_lib [] (CHR 0xAA # ''@x.com'') ''p'' None None None =
     (Inr \<lparr> user = ordinal, access_token = ''hdr.access:a.sig'',
            refresh_token = ''hdr.refresh:a.sig'' \<rparr>,
      [ordinal])
   \<and> username ordinal = ''a''
   \<and> takeWhile (\<lambda>c. c \<noteq> CHR ''@'') (CHR 0xAA # ''@x.com'') = [CHR 0xAA]
   \<and> username ordinal \<noteq> takeWhile (\<lambda>c. c \<noteq> CHR ''@'') (CHR 0xAA # ''@x.com'')"
  by code_simp

text \<open>
  C4, as the code has it: when no row has the submitted email, neither as submitted
  nor in Django's normal form (outer whitespace stripped, the domain in lower case),
  the username that \<open>register\<close> settles on (the one given, else the part of the email
  before its first \<open>@\<close>) is not empty and no row has its normalised form, then
  \<open>register\<close> succeeds: it appends one row, whose email is the submitted email in
  normal form, and whose id and email no earlier row has, and returns it with the
  access and refresh tokens issued for it.
\<close>

theorem Register_new_email:
  assumes new: "\<forall>u\<in>set rows. email u \<noteq> em \<and> email u \<noteq> normalize_email em"
    and nonempty: "py_or un (hd (py_split CHR ''@'' em)) \<noteq> []"
    and free: "\<forall>u\<in>set rows.
                 username u \<noteq> normalize_username L (py_or un (hd (py_split CHR ''@'' em)))"
  shows "\<exists>r. Register_mutate L rows em pw un fn ln = (Inr r, rows @ [user r])
        \<and> email (user r) = normalize_email em
        \<and> (\<forall>u\<in>set rows. pk u \<noteq> pk (user r) \<and> email u \<noteq> email (user r))
        \<and> access_token r = access_for_user L (user r)
        \<and> refresh_token r = refresh_for_user L (user r)"
proof -
  define n where "n = py_or un (hd (py_split CHR ''@'' em))"
  define u where "u = \<lparr> pk = new_pk rows, username = normalize_username L n,
                   email = normalize_email em,
                   password = make_password L pw, first_name = py_or fn [], last_name = py_or ln [],
                   is_active = True, avatar_url = None, primary_contact = None,
                   secondary_contact = None, profile_json = JObj [] \<rparr>"
  have fresh: "\<forall>r\<in>set rows. pk r \<noteq> pk u"
    using new_pk_fresh [of _ rows] by (fastforce simp: u_def)
  have c: "create_user L rows n em pw (py_or fn []) (py_or ln []) = (Inr u, rows @ [u])"
    using nonempty free by (simp add: create_user_def u_def list_ex_iff Let_def n_def)
  have e: "\<not> exists_qs (filter_email rows em)"
    using new by (simp add: exists_qs_def filter_email_empty)
  have "Register_mutate L rows em pw un fn ln =
      (Inr \<lparr> user = u, access_token = access_for_user L u, refresh_token = refresh_for_user L u \<rparr>,
       rows @ [u])"
    using c e save_appended [OF fresh] by (simp add: Register_mutate_def n_def)
  moreover have "email u = normalize_email em" by (simp add: u_def)
  ultimately show ?thesis using fresh new by force
qed

theorem Register_new_email_witness:
  "\<exists>r. Register_mutate demo_lib [alice] ''carol@Y.com'' ''zz'' None None (Some ''Lee'')
          = (Inr r, [alice] @ [user r])
        \<and> email (user r) = normalize_email ''carol@Y.com''
        \<and> pk (user r) \<notin> pk ` set [alice]
        \<and> email (user r) \<notin> email ` set [alice]
        \<and> access_token r = access_for_user demo_lib (user r)
        \<and> refresh_token r = refresh_for_user demo_lib (user r)"
proof -
  have 1: "\<forall>u\<in>set [alice]. email u \<noteq> ''carol@Y.com'' \<and> email u \<noteq> normalize_email ''carol@Y.com''"
    by code_simp
  have 2: "py_or None (hd (py_split CHR ''@'' ''carol@Y.com'')) \<noteq> []" by simp
  have 3: "\<forall>u\<in>set [alice].
             username u \<noteq> normalize_username demo_lib (py_or None (hd (py_split CHR ''@'' ''carol@Y.com'')))"
    by code_simp
  from Register_new_email [OF 1 2 3, of "''zz''" None "Some ''Lee''"]
  show ?thesis by auto
qed

text \<open>
  C4 as the spec states it fails, each time with an email no row has. With alice
  (a@x.com, username a) in the table: \<open>register\<close> of a@y.com with no username derives
  the taken username a and the insert raises \<open>IntegrityError\<close>; so does \<open>register\<close>
  with the username U+00AA, which no row has but which is normalised to a;
  \<open>register\<close> of @y.com with no username raises \<open>ValueError\<close>; and \<open>register\<close> of
  carol@Y.com succeeds with a user whose email is carol@y.com.
\<close>

theorem Register_new_email_counterexample:
  "\<not> list_ex (\<lambda>u. email u = ''a@y.com'') [alice]
   \<and> Register_mutate demo_lib [alice] ''a@y.com'' ''zz'' None None None
       = (Inl IntegrityError, [alice])
   \<and> \<not> list_ex (\<lambda>u. email u = ''z@y.com'' \<or> username u = [CHR 0xAA]) [alice]
   \<and> Register_mutate demo_lib [alice] ''z@y.com'' ''zz'' (Some [CHR 0xAA]) None None
       = (Inl IntegrityError, [alice])
   \<and> \<not> list_ex (\<lambda>u. email u = ''@y.com'') [alice]
   \<and> Register_mutate demo_lib [alice] ''@y.com'' ''zz'' None None None
       = (Inl (ValueError ''The given username must be set''), [alice])
   \<and> \<not> list_ex (\<lambda>u. email u = ''carol@Y.com'') [alice]
   \<and> Register_mutate demo_lib [alice] ''carol@Y.com'' ''zz'' None None (Some ''Lee'')
       = (Inr \<lparr> user = carol, access_token = ''hdr.access:carol.sig'',
                refresh_token = ''hdr.refresh:carol.sig'' \<rparr>,
          [alice, carol])
   \<and> email carol \<noteq> ''carol@Y.com''"
  by code_simp

text \<open>
  C6 fails on the code: \<open>register\<close> looks for the email as submitted and stores it
  normalised. From the empty table, registering a@x.com and then a@X.com (username b)
  both succeed and leave two rows with the email a@x.com; so does registering a@x.com
  with a leading blank.
\<close>

theorem Register_twice_duplicates_email:
  "Register_mutate demo_lib [] ''a@x.com'' ''p'' None None None =
     (Inr \<lparr> user = alice, access_token = ''hdr.access:a.sig'', refresh_token = ''hdr.refresh:a.sig'' \<rparr>, [alice])
   \<and> Register_mutate demo_lib [alice] ''a@X.com'' ''q'' (Some ''b'') None None =
     (Inr \<lparr> user = twin, access_token = ''hdr.access:b.sig'', refresh_token = ''hdr.refresh:b.sig'' \<rparr>,
      [alice, twin])
   \<and> email alice = email twin \<and> pk alice \<noteq> pk twin
   \<and> Register_mutate demo_lib [alice] '' a@x.com'' ''q'' None None None =
     (Inr \<lparr> user = spaced, access_token = ''hdr.access: a.sig'', refresh_token = ''hdr.refresh: a.sig'' \<rparr>,
      [alice, spaced])
   \<and> email alice = email spaced \<and> pk alice \<noteq> pk spaced"
  by code_simp

section \<open>Login\<close>




text \<open>
  The defect of C6 shows in \<open>login\<close> too, and the statement above leaves it out:
  a user registered with a@X.com is stored with a@x.com, and \<open>login\<close> with the email
  as it was registered, and the right password, raises "Invalid credentials".
\<close>

lemma Login_after_unnormalised_register:
  "Register_mutate demo_lib [] ''a@X.com'' ''p'' None None None =
     (Inr \<lparr> user = alice, access_token = ''hdr.access:a.sig'',
            refresh_token = ''hdr.refresh:a.sig'' \<rparr>, [alice])
   \<and> Login_mutate demo_lib [alice] ''a@X.com'' ''p'' = Inl InvalidCredentials"
  by code_simp

section \<open>Profile update\<close>

lemma update_step_core:
  "update_step kv u =
     u\<lparr>primary_contact := primary_contact (update_step kv u),
       secondary_contact := secondary_contact (update_step kv u),
       avatar_url := avatar_url (update_step kv u)\<rparr>"
proof -
  obtain k v where kv: "kv = (k, v)" by (cases kv)
  show ?thesis unfolding kv by (cases v; cases k) simp_all
qed

lemma update_step_other: "k \<noteq> fst kv \<Longrightarrow> arg_value (update_step kv u) k = arg_value u k"
proof -
  assume a: "k \<noteq> fst kv"
  obtain k' v where kv: "kv = (k', v)" by (cases kv)
  show ?thesis using a unfolding kv by (cases v; cases k'; cases k) simp_all
qed

lemma update_step_same:
  "arg_value (update_step (k, v) u) k = (case v of Some x \<Rightarrow> Some x | None \<Rightarrow> arg_value u k)"
  by (cases v; cases k) simp_all

lemma fold_update_absent:
  "k \<notin> fst ` set kw \<Longrightarrow> arg_value (fold update_step kw u) k = arg_value u k"
  by (induction kw arbitrary: u) (auto simp: update_step_other)

lemma fold_update_value:
  "distinct (map fst kw) \<Longrightarrow>
   arg_value (fold update_step kw u) k =
     (case map_of kw k of Some (Some x) \<Rightarrow> Some x | _ \<Rightarrow> arg_value u k)"
proof (induction kw arbitrary: u)
  case Nil
  then show ?case by simp
next
  case (Cons kv kw)
  obtain k' v where kv: "kv = (k', v)" by (cases kv)
  from Cons.prems kv have d: "distinct (map fst kw)" and n: "k' \<notin> fst ` set kw" by auto
  show ?case
  proof (cases "k' = k")
    case True
    with n have "k \<notin> fst ` set kw" by simp
    then have a: "arg_value (fold update_step kw (update_step (k, v) u)) k
                  = arg_value (update_step (k, v) u) k"
      by (rule fold_update_absent)
    show ?thesis unfolding kv using True a
      by (cases v) (simp_all add: update_step_same del: update_step.simps)
  next
    case False
    have b: "arg_value (update_step (k', v) u) k = arg_value u k"
      using False by (simp add: update_step_other)
    show ?thesis unfolding kv using Cons.IH [OF d, of "update_step (k', v) u"] False b
      by (simp del: update_step.simps split: option.splits)
  qed
qed

lemma fold_update_core:
  "fold update_step kw u =
     u\<lparr>primary_contact := primary_contact (fold update_step kw u),
       secondary_contact := secondary_contact (fold update_step kw u),
       avatar_url := avatar_url (fold update_step kw u)\<rparr>"
proof (induction kw arbitrary: u)
  case Nil
  then show ?case by simp
next
  case (Cons kv kw)
  have "fold update_step (kv # kw) u = fold update_step kw (update_step kv u)" by simp
  also have "\<dots> = (update_step kv u)\<lparr>primary_contact := primary_contact (fold update_step kw (update_step kv u)),
       secondary_contact := secondary_contact (fold update_step kw (update_step kv u)),
       avatar_url := avatar_url (fold update_step kw (update_step kv u))\<rparr>"
    by (rule Cons.IH)
  also have "\<dots> = u\<lparr>primary_contact := primary_contact (fold update_step kw (update_step kv u)),
       secondary_contact := secondary_contact (fold update_step kw (update_step kv u)),
       avatar_url := avatar_url (fold update_step kw (update_step kv u))\<rparr>"
    by (subst update_step_core) simp
  finally show ?case by simp
qed

lemma save_others:
  "filter (\<lambda>r. pk r \<noteq> pk u) (save rows u) = filter (\<lambda>r. pk r \<noteq> pk u) rows"
  by (auto simp: save_def filter_map comp_def intro: filter_cong map_idI)

lemma save_own: "r \<in> set (save rows u) \<Longrightarrow> pk r = pk u \<Longrightarrow> r = u"
  by (auto simp: save_def list_ex_iff split: if_splits)

lemma save_length: "list_ex (\<lambda>r. pk r = pk u) rows \<Longrightarrow> length (save rows u) = length rows"
  by (simp add: save_def)

text \<open>
  C3: \<open>updateProfile\<close> by an authenticated caller returns the caller's user with
  each of primary_contact, secondary_contact and avatar_url set to the supplied value
  when one was supplied and was not null, and as it was otherwise; every other field
  of that user (id, username, email, password hash among them) is as before. In the
  table only the row with the caller's id is rewritten, to the returned user: the
  rows of all other users are the same, in the same order.
\<close>

theorem UpdateProfile_frame:
  assumes "distinct (map fst kwargs)"
  shows "\<exists>u'. UpdateProfile_mutate rows (Authenticated u) kwargs = (Inr u', save rows u')
     \<and> primary_contact u' =
         (case map_of kwargs Arg_primary_contact of Some (Some v) \<Rightarrow> Some v | _ \<Rightarrow> primary_contact u)
     \<and> secondary_contact u' =
         (case map_of kwargs Arg_secondary_contact of Some (Some v) \<Rightarrow> Some v | _ \<Rightarrow> secondary_contact u)
     \<and> avatar_url u' =
         (case map_of kwargs Arg_avatar_url of Some (Some v) \<Rightarrow> Some v | _ \<Rightarrow> avatar_url u)
     \<and> u' = u\<lparr>primary_contact := primary_contact u', secondary_contact := secondary_contact u',
               avatar_url := avatar_url u'\<rparr>
     \<and> pk u' = pk u \<and> username u' = username u \<and> email u' = email u \<and> password u' = password u
     \<and> filter (\<lambda>r. pk r \<noteq> pk u) (save rows u') = filter (\<lambda>r. pk r \<noteq> pk u) rows
     \<and> (\<forall>r\<in>set (save rows u'). pk r = pk u \<longrightarrow> r = u')
     \<and> (u \<in> set rows \<longrightarrow> u' \<in> set (save rows u') \<and> length (save rows u') = length rows)"
proof -
  define u' where "u' = fold update_step kwargs u"
  have core: "u' = u\<lparr>primary_contact := primary_contact u', secondary_contact := secondary_contact u',
               avatar_url := avatar_url u'\<rparr>"
    unfolding u'_def by (rule fold_update_core)
  have same: "pk u' = pk u" "username u' = username u" "email u' = email u" "password u' = password u"
    by (subst core, simp)+
  have vals: "arg_value u' k = (case map_of kwargs k of Some (Some x) \<Rightarrow> Some x | _ \<Rightarrow> arg_value u k)" for k
    unfolding u'_def using assms by (rule fold_update_value)
  have res: "UpdateProfile_mutate rows (Authenticated u) kwargs = (Inr u', save rows u')"
    by (simp add: UpdateProfile_mutate_def u'_def Let_def)
  have others: "filter (\<lambda>r. pk r \<noteq> pk u) (save rows u') = filter (\<lambda>r. pk r \<noteq> pk u) rows"
    using save_others [of u' rows] by (simp add: same)
  have own: "\<forall>r\<in>set (save rows u'). pk r = pk u \<longrightarrow> r = u'"
    using save_own [of _ rows u'] by (auto simp: same)
  have len: "u \<in> set rows \<longrightarrow> u' \<in> set (save rows u') \<and> length (save rows u') = length rows"
    using save_length [of u' rows] save_mem [of u' rows] by (auto simp: list_ex_iff same)
  have pc: "primary_contact u' =
      (case map_of kwargs Arg_primary_contact of Some (Some v) \<Rightarrow> Some v | _ \<Rightarrow> primary_contact u)"
    using vals [of Arg_primary_contact] by (simp split: option.splits)
  have sc: "secondary_contact u' =
      (case map_of kwargs Arg_secondary_contact of Some (Some v) \<Rightarrow> Some v | _ \<Rightarrow> secondary_contact u)"
    using vals [of Arg_secondary_contact] by (simp split: option.splits)
  have av: "avatar_url u' =
      (case map_of kwargs Arg_avatar_url of Some (Some v) \<Rightarrow> Some v | _ \<Rightarrow> avatar_url u)"
    using vals [of Arg_avatar_url] by (simp split: option.splits)
  show ?thesis
    by (intro exI [of _ u'] conjI; fact)
qed

theorem UpdateProfile_frame_witness:
  "UpdateProfile_mutate [alice, bob] (Authenticated bob)
     [(Arg_avatar_url, Some ''http://x/img.png''), (Arg_primary_contact, None)] =
   (Inr (bob\<lparr>avatar_url := Some ''http://x/img.png''\<rparr>),
    [alice, bob\<lparr>avatar_url := Some ''http://x/img.png''\<rparr>])"
proof -
  have d: "distinct (map fst [(Arg_avatar_url, Some ''http://x/img.png''), (Arg_primary_contact, None)])"
    by simp
  from UpdateProfile_frame [OF d, of "[alice, bob]" bob] obtain u' where
    r: "UpdateProfile_mutate [alice, bob] (Authenticated bob)
          [(Arg_avatar_url, Some ''http://x/img.png''), (Arg_primary_contact, None)]
        = (Inr u', save [alice, bob] u')"
    and pc: "primary_contact u' = primary_contact bob"
    and sc: "secondary_contact u' = secondary_contact bob"
    and av: "avatar_url u' = Some ''http://x/img.png''"
    and core: "u' = bob\<lparr>primary_contact := primary_contact u',
                       secondary_contact := secondary_contact u', avatar_url := avatar_url u'\<rparr>"
    by auto
  have u': "u' = bob\<lparr>avatar_url := Some ''http://x/img.png''\<rparr>"
    by (subst core) (simp add: pc sc av)
  have "save [alice, bob] (bob\<lparr>avatar_url := Some ''http://x/img.png''\<rparr>)
          = [alice, bob\<lparr>avatar_url := Some ''http://x/img.png''\<rparr>]"
    by (simp add: save_def alice_def bob_def)
  with r u' show ?thesis by simp
qed

section \<open>The round trip of profile_json\<close>

text \<open>
  C9: after a value \<open>v\<close> is written to a user's \<open>profile_json\<close> and the user is saved,
  reading the user back by its id gives the user with \<open>profile_json\<close> equal to \<open>v\<close>,
  for every table, user and JSON value.
\<close>

theorem profile_json_round_trip:
  "find_by_id (save rows (u\<lparr>profile_json := v\<rparr>)) (pk u) = Some (u\<lparr>profile_json := v\<rparr>)
   \<and> map_option profile_json (find_by_id (save rows (u\<lparr>profile_json := v\<rparr>)) (pk u)) = Some v"
  using find_save [of "u\<lparr>profile_json := v\<rparr>" rows] by (simp add: find_by_id_def)

section \<open>The constraints are kept\<close>

text \<open>
  \<open>register\<close> and \<open>updateProfile\<close> keep primary keys and usernames unique; \<open>login\<close>
  and \<open>me\<close> do not write.
\<close>

lemma save_present:
  "distinct (map pk rows) \<Longrightarrow> u \<in> set rows \<Longrightarrow> username u' = username u \<Longrightarrow> pk u' = pk u \<Longrightarrow>
   map pk (save rows u') = map pk rows \<and> map username (save rows u') = map username rows"
  by (auto simp: save_def list_ex_iff distinct_map dest: inj_onD)

lemma Register_table_ok:
  assumes "table_ok rows"
  shows "table_ok (snd (Register_mutate L rows em pw un fn ln))"
proof (cases "fst (Register_mutate L rows em pw un fn ln)")
  case (Inl e)
  then have "snd (Register_mutate L rows em pw un fn ln) = rows"
    by (auto simp: Register_mutate_def create_user_def Let_def split: if_splits)
  with assms show ?thesis by simp
next
  case (Inr r)
  then have eq: "Register_mutate L rows em pw un fn ln = (Inr r, snd (Register_mutate L rows em pw un fn ln))"
    by (metis prod.collapse)
  from Register_Inr [OF eq] obtain rows1 where
    c: "create_user L rows (py_or un (hd (py_split CHR ''@'' em))) em pw (py_or fn []) (py_or ln [])
          = (Inr (user r), rows1)"
    and s: "snd (Register_mutate L rows em pw un fn ln) = save rows1 (user r)" by blast
  from create_user_Inr [OF c] have
    n: "\<not> list_ex (\<lambda>x. username x
             = normalize_username L (py_or un (hd (py_split CHR ''@'' em)))) rows"
    and r1: "rows1 = rows @ [user r]"
    and un: "username (user r) = normalize_username L (py_or un (hd (py_split CHR ''@'' em)))"
    and p: "pk (user r) = new_pk rows"
    by (blast, blast, (metis User.select_convs(2)), (metis User.select_convs(1)))
  have fresh: "\<forall>x\<in>set rows. pk x \<noteq> pk (user r)"
    using new_pk_fresh [of _ rows] p by fastforce
  have "save rows1 (user r) = rows @ [user r]"
    unfolding r1 using fresh by (rule save_appended)
  moreover have "username (user r) \<notin> username ` set rows"
    using n un by (auto simp: list_ex_iff)
  moreover have "pk (user r) \<notin> pk ` set rows" using fresh by auto
  ultimately show ?thesis using assms s by (simp add: table_ok_def)
qed

lemma UpdateProfile_table_ok:
  assumes "table_ok rows" "u \<in> set rows"
  shows "table_ok (snd (UpdateProfile_mutate rows (Authenticated u) kwargs))"
proof -
  have "fold update_step kwargs u = u\<lparr>primary_contact := primary_contact (fold update_step kwargs u),
       secondary_contact := secondary_contact (fold update_step kwargs u),
       avatar_url := avatar_url (fold update_step kwargs u)\<rparr>" by (rule fold_update_core)
  then have "username (fold update_step kwargs u) = username u" "pk (fold update_step kwargs u) = pk u"
    by (metis User.select_convs(2) User.surjective User.update_convs(8,9,10),
        metis User.select_convs(1) User.surjective User.update_convs(8,9,10))
  with save_present [of rows u "fold update_step kwargs u"] assms
  show ?thesis by (simp add: UpdateProfile_mutate_def table_ok_def Let_def)
qed

end
